theory Spec2Isabelle
  imports Complex_Main
begin

section \<open>The download manager of \<open>core/downloader.py\<close>\<close>

text \<open>
  The class \<open>DownloadManager\<close> keeps six lists of job items (Python dictionaries) and
  moves the items between them: generator workers resolve a pending item into a
  download link, download workers hand a resolved item to the external tool
  \<open>aria2c\<close> and retry it. This theory embeds the queue operations, the retry loop and
  the progress parser, and states the properties claimed of them.

  Python strings are modelled as \<^typ>\<open>string\<close>: sequences of code points below 256.
  Integers are unbounded (\<^typ>\<open>nat\<close>, \<^typ>\<open>int\<close>), clock readings of
  \<open>time.time()\<close> are \<^typ>\<open>real\<close> seconds.

  What the manager does besides changing its queues and items is left out: log
  lines, progress callbacks (taken not to raise), sleeping, the bookkeeping of
  running processes and the writing of the database file. What it reads from
  outside is an argument of the model: the clock, the configuration, the results
  of the link generator and the fate of every \<open>aria2c\<close> process.
\<close>

subsection \<open>Python values used by the parser\<close>

datatype py_error = ValueError | OverflowError | IndexError

definition is_digit :: "char \<Rightarrow> bool" where
  \<comment> \<open>\<open>\d\<close>: the decimal digits; below code point 256 these are \<open>0\<close> to \<open>9\<close>.\<close>
  "is_digit c = (48 \<le> (of_char c :: nat) \<and> (of_char c :: nat) \<le> 57)"

definition is_space :: "char \<Rightarrow> bool" where
  \<comment> \<open>\<open>\s\<close> of a \<open>str\<close> pattern: the code points below 256 for which
      \<open>str.isspace\<close> holds.\<close>
  "is_space c = ((of_char c :: nat) \<in> {9, 10, 11, 12, 13, 28, 29, 30, 31, 32, 133, 160})"

definition digit_val :: "char \<Rightarrow> nat" where
  "digit_val c = of_char c - 48"

fun nat_of_digits_acc :: "nat \<Rightarrow> string \<Rightarrow> nat" where
  "nat_of_digits_acc acc [] = acc"
| "nat_of_digits_acc acc (c # cs) = nat_of_digits_acc (10 * acc + digit_val c) cs"

definition nat_of_digits :: "string \<Rightarrow> nat" where
  "nat_of_digits ds = nat_of_digits_acc 0 ds"

definition max_str_digits :: nat where
  \<comment> \<open>CPython's default limit on the length of a decimal string given to \<open>int()\<close>.\<close>
  "max_str_digits = 4300"

definition py_int_of_str :: "string \<Rightarrow> py_error + int" where
  \<comment> \<open>\<open>int(text)\<close> for a non-empty string of digits: beyond the digit limit CPython
      raises \<open>ValueError\<close>.\<close>
  "py_int_of_str ds =
     (if max_str_digits < length ds then Inl ValueError else Inr (int (nat_of_digits ds)))"

fun bit_length :: "nat \<Rightarrow> nat" where
  "bit_length n = (if n = 0 then 0 else Suc (bit_length (n div 2)))"

definition round_half_even :: "nat \<Rightarrow> nat \<Rightarrow> nat" where
  \<comment> \<open>\<open>a / b\<close> rounded to the nearest integer, a tie to the even one.\<close>
  "round_half_even a b =
     (let k = a div b; r = a mod b
      in if 2 * r < b then k else if b < 2 * r then k + 1 else if even k then k else k + 1)"

definition int_of_float_tenths :: "nat \<Rightarrow> py_error + int" where
  \<comment> \<open>\<open>int(float(text))\<close> where \<open>text\<close> denotes the rational \<open>m / 10\<close>:
      \<open>float\<close> rounds to the nearest binary64 (53 significant bits, ties to even),
      \<open>int\<close> truncates, and raises \<open>OverflowError\<close> on infinity. With
      \<open>e = bit_length (16 m div 10) - 1\<close> the value lies in \<open>[2^(e-4), 2^(e-3))\<close>
      and the double is \<open>k * 2^(e-56)\<close>.\<close>
  "int_of_float_tenths m =
     (if m = 0 then Inr 0
      else
        let e = bit_length (16 * m div 10) - 1;
            k = (if e \<le> 52 then round_half_even (16 * m * 2 ^ (52 - e)) 10
                 else round_half_even (16 * m) (10 * 2 ^ (e - 52)))
        in if 56 \<le> e
           then (if 2 ^ 1024 \<le> k * 2 ^ (e - 56) then Inl OverflowError
                 else Inr (int (k * 2 ^ (e - 56))))
           else Inr (int (k div 2 ^ (56 - e))))"

definition py_int_of_float_str :: "string \<Rightarrow> py_error + int" where
  \<comment> \<open>\<open>int(float(text))\<close> for the texts the third pattern captures: digits, then
      possibly a dot, then possibly one more digit.\<close>
  "py_int_of_float_str t =
     (let ds = takeWhile is_digit t; rest = dropWhile is_digit t;
          frac = (case rest of [] \<Rightarrow> 0 | _ # fs \<Rightarrow> (case fs of [] \<Rightarrow> 0 | f # _ \<Rightarrow> digit_val f))
      in int_of_float_tenths (10 * nat_of_digits ds + frac))"

subsection \<open>The regular expressions of the progress parser\<close>

text \<open>
  The three patterns of \<open>_parse_aria2_progress\<close> are sequences of single-character
  classes, each taken once, optionally (\<open>?\<close>) or one or more times (\<open>+\<close>), the last
  two greedy. \<open>match_here\<close> is the backtracking matcher anchored at the start of the
  text; it returns the text each item consumed in the first match the backtracking
  order finds. \<open>re_search\<close> tries every start position from the left, as
  \<open>re.search\<close> does.
\<close>

datatype quant = One | Opt | Plus

type_synonym rx_item = "(char \<Rightarrow> bool) \<times> quant"

fun match_here :: "rx_item list \<Rightarrow> string \<Rightarrow> string list option" where
  "match_here [] s = Some []"
| "match_here ((c, One) # p) [] = None"
| "match_here ((c, One) # p) (x # xs) =
     (if c x then map_option (\<lambda>r. [x] # r) (match_here p xs) else None)"
| "match_here ((c, Opt) # p) [] = map_option (\<lambda>r. [] # r) (match_here p [])"
| "match_here ((c, Opt) # p) (x # xs) =
     (if c x
      then (case match_here p xs of
              Some r \<Rightarrow> Some ([x] # r)
            | None \<Rightarrow> map_option (\<lambda>r. [] # r) (match_here p (x # xs)))
      else map_option (\<lambda>r. [] # r) (match_here p (x # xs)))"
| "match_here ((c, Plus) # p) [] = None"
| "match_here ((c, Plus) # p) (x # xs) =
     (if c x
      then (case match_here ((c, Plus) # p) xs of
              Some (g # r) \<Rightarrow> Some ((x # g) # r)
            | _ \<Rightarrow> map_option (\<lambda>r. [x] # r) (match_here p xs))
      else None)"

fun re_search :: "rx_item list \<Rightarrow> string \<Rightarrow> string list option" where
  "re_search p [] = match_here p []"
| "re_search p (x # xs) =
     (case match_here p (x # xs) of Some r \<Rightarrow> Some r | None \<Rightarrow> re_search p xs)"

definition lit :: "char \<Rightarrow> char \<Rightarrow> bool" where
  "lit a c = (c = a)"

definition pattern :: "rx_item list" where
  \<comment> \<open>\<open>\((\d+)%\)\<close>; group 1 is item 1\<close>
  "pattern = [(lit CHR ''('', One), (is_digit, Plus), (lit CHR ''%'', One), (lit CHR '')'', One)]"

definition pattern2 :: "rx_item list" where
  \<comment> \<open>\<open>(\d+)%\s+\<close>; group 1 is item 0\<close>
  "pattern2 = [(is_digit, Plus), (lit CHR ''%'', One), (is_space, Plus)]"

definition pattern3 :: "rx_item list" where
  \<comment> \<open>\<open>(\d+\.?\d?)%\<close>; group 1 is items 0 to 2\<close>
  "pattern3 = [(is_digit, Plus), (lit CHR ''.'', Opt), (is_digit, Opt), (lit CHR ''%'', One)]"

definition parse_aria2_progress :: "string \<Rightarrow> py_error + int" where
  \<comment> \<open>\<open>_parse_aria2_progress\<close>. An exception of \<open>int\<close> in the first two branches
      leaves the function; the third branch catches every exception and returns 0.\<close>
  "parse_aria2_progress output =
     (if output = [] then Inr 0
      else case re_search pattern output of
        Some m \<Rightarrow> py_int_of_str (m ! 1)
      | None \<Rightarrow>
         (case re_search pattern2 output of
            Some m2 \<Rightarrow> py_int_of_str (m2 ! 0)
          | None \<Rightarrow>
             (case re_search pattern3 output of
                Some m3 \<Rightarrow>
                  (case py_int_of_float_str (concat (take 3 m3)) of
                     Inr n \<Rightarrow> Inr n
                   | Inl _ \<Rightarrow> Inr 0)
              | None \<Rightarrow> Inr 0)))"

subsection \<open>Job items and the manager's state\<close>

text \<open>
  A job item is the dictionary \<open>add_to_queue\<close> builds; the key \<open>last_attempt\<close> is
  absent until a generator worker claims the item. The six queues hold references
  to the dictionaries: the same object can stand in several lists, and an
  assignment through one reference is seen through all of them, so the items live
  in a store and the queues are lists of addresses. Addresses from \<open>next_ref\<close> on
  are not allocated.
\<close>

datatype status = Pending | Processing | Ready_to_download | Downloading | Completed | Failed

record item =
  item_id :: string
  youtube_url :: string
  quality :: string
  title :: string
  status :: status
  download_url :: "string option"
  file_size :: string
  error :: "string option"
  retry_count :: int
  download_retry_count :: int
  last_retry_time :: real
  last_attempt :: "real option"

type_synonym ref = nat

record manager =
  heap :: "ref \<Rightarrow> item"
  next_ref :: ref
  pending_queue :: "ref list"
  processing_queue :: "ref list"
  download_queue :: "ref list"
  downloading :: "ref list"
  completed_list :: "ref list"
  failed_list :: "ref list"
  paused :: bool
  stopped :: bool
  active_generators :: int

definition blank_item :: item where
  "blank_item = \<lparr>item_id = [], youtube_url = [], quality = [], title = [], status = Pending,
     download_url = None, file_size = [], error = None, retry_count = 0,
     download_retry_count = 0, last_retry_time = 0, last_attempt = None\<rparr>"

definition init_manager :: manager where
  \<comment> \<open>\<open>__init__\<close>\<close>
  "init_manager = \<lparr>heap = (\<lambda>_. blank_item), next_ref = 0, pending_queue = [],
     processing_queue = [], download_queue = [], downloading = [], completed_list = [],
     failed_list = [], paused = False, stopped = False, active_generators = 0\<rparr>"

definition update_item :: "ref \<Rightarrow> (item \<Rightarrow> item) \<Rightarrow> manager \<Rightarrow> manager" where
  \<comment> \<open>an assignment \<open>item[key] = value\<close> to the dictionary at address \<open>r\<close>\<close>
  "update_item r f s = s\<lparr>heap := (heap s)(r := f (heap s r))\<rparr>"

definition same_item :: "manager \<Rightarrow> ref \<Rightarrow> ref \<Rightarrow> bool" where
  \<comment> \<open>how \<open>in\<close> and \<open>list.remove\<close> compare an element with the item: the same object,
      or an equal dictionary\<close>
  "same_item s r x = (x = r \<or> heap s x = heap s r)"

definition item_in :: "manager \<Rightarrow> ref \<Rightarrow> ref list \<Rightarrow> bool" where
  "item_in s r xs = list_ex (same_item s r) xs"

fun remove_first :: "('a \<Rightarrow> bool) \<Rightarrow> 'a list \<Rightarrow> 'a list option" where
  "remove_first P [] = None"
| "remove_first P (x # xs) = (if P x then Some xs else map_option ((#) x) (remove_first P xs))"

definition list_remove :: "manager \<Rightarrow> ref \<Rightarrow> ref list \<Rightarrow> ref list option" where
  \<comment> \<open>\<open>xs.remove(item)\<close>: the first equal element goes; \<open>None\<close> is the \<open>ValueError\<close>
      of a list without one\<close>
  "list_remove s r xs = remove_first (same_item s r) xs"

fun string_of_nat :: "nat \<Rightarrow> string" where
  "string_of_nat n =
     (if n < 10 then [''0123456789'' ! n]
      else string_of_nat (n div 10) @ [''0123456789'' ! (n mod 10)])"

declare string_of_nat.simps [simp del]

definition string_of_int :: "int \<Rightarrow> string" where
  "string_of_int i = (if i < 0 then CHR ''-'' # string_of_nat (nat (- i)) else string_of_nat (nat i))"

definition py_int_of_real :: "real \<Rightarrow> int" where
  \<comment> \<open>\<open>int(x)\<close> truncates towards zero\<close>
  "py_int_of_real x = (if 0 \<le> x then \<lfloor>x\<rfloor> else \<lceil>x\<rceil>)"

definition starts_with :: "string \<Rightarrow> string \<Rightarrow> bool" where
  "starts_with p t = (take (length p) t = p)"

fun contains :: "string \<Rightarrow> string \<Rightarrow> bool" where
  \<comment> \<open>\<open>sub in text\<close>\<close>
  "contains sub [] = (sub = [])"
| "contains sub (c # cs) = (starts_with sub (c # cs) \<or> contains sub cs)"

subsection \<open>Enqueueing\<close>

definition round_half_even_real :: "real \<Rightarrow> int" where
  \<comment> \<open>the nearest integer, a tie to the even one\<close>
  "round_half_even_real y =
     (let f = \<lfloor>y\<rfloor>; d = y - of_int f
      in if d < 1 / 2 then f else if 1 / 2 < d then f + 1 else if even f then f else f + 1)"

definition pow2 :: "int \<Rightarrow> real" where
  "pow2 k = (if 0 \<le> k then 2 ^ nat k else 1 / 2 ^ nat (- k))"

definition binary_exponent :: "real \<Rightarrow> int" where
  \<comment> \<open>the \<open>e\<close> with \<open>2^e \<le> x < 2^(e+1)\<close>, for \<open>x > 0\<close>\<close>
  "binary_exponent x =
     (if 1 \<le> x then int (bit_length (nat \<lfloor>x\<rfloor>)) - 1
      else (let bl = int (bit_length (nat \<lfloor>1 / x\<rfloor>))
            in if x = pow2 (1 - bl) then 1 - bl else - bl))"

definition binary64_pos :: "real \<Rightarrow> real" where
  \<comment> \<open>the binary64 number nearest to \<open>x \<ge> 0\<close>: 53 significant bits, ties to even,
      steps of \<open>2^-1074\<close> at the bottom of the range. Overflow to infinity (a
      product of \<open>2^1024\<close> or more, on which \<open>int\<close> would raise) is not modelled.\<close>
  "binary64_pos x =
     (if x = 0 then 0
      else (let ulp = pow2 (max (binary_exponent x - 52) (- 1074))
            in of_int (round_half_even_real (x / ulp)) * ulp))"

definition binary64 :: "real \<Rightarrow> real" where
  "binary64 x = (if 0 \<le> x then binary64_pos x else - binary64_pos (- x))"

definition new_item_id :: "real \<Rightarrow> string" where
  \<comment> \<open>\<open>f"yt_{int(time.time() * 1000)}"\<close>: the clock reading is a binary64 number,
      taken as the real number it denotes; its product with 1000 is rounded to
      binary64 and then truncated\<close>
  "new_item_id now = ''yt_'' @ string_of_int (py_int_of_real (binary64 (now * 1000)))"

definition add_to_queue :: "string \<Rightarrow> string \<Rightarrow> real \<Rightarrow> manager \<Rightarrow> string \<times> manager" where
  "add_to_queue url q now s =
     (let it = \<lparr>item_id = new_item_id now, youtube_url = url, quality = q,
                 title = take 50 url, status = Pending, download_url = None,
                 file_size = ''0 MB'', error = None, retry_count = 0,
                 download_retry_count = 0, last_retry_time = 0, last_attempt = None\<rparr>;
          r = next_ref s
      in (item_id it,
          s\<lparr>heap := (heap s)(r := it), next_ref := Suc r,
            pending_queue := pending_queue s @ [r]\<rparr>))"

definition all_items :: "manager \<Rightarrow> ref list" where
  "all_items s = pending_queue s @ processing_queue s @ download_queue s @ downloading s @
     completed_list s @ failed_list s"

definition find_item_by_id :: "manager \<Rightarrow> string \<Rightarrow> ref option" where
  \<comment> \<open>\<open>_find_item_by_id\<close>: the first item of the six queues with that id\<close>
  "find_item_by_id s i = find (\<lambda>r. item_id (heap s r) = i) (all_items s)"

subsection \<open>Resolution workers\<close>

text \<open>
  The link generator (\<open>core/generator.py\<close>) is taken as an environment: each call
  either returns a result, returns nothing, or raises.
\<close>

text \<open>Modelled from the spec: the result of \<open>LinkGenerator.generate_link\<close>, which is
  not among the sources; the resolver returns \<open>{resolved_url, title, size}\<close>.\<close>

record link_result =
  res_download_url :: string
  res_title :: string
  res_file_size :: "string option"

datatype resolve_outcome = Resolved link_result | NoResult | GeneratorRaised string

record gen_env =
  stop_seen :: bool
  clock :: real
  outcome :: resolve_outcome

definition err_three_attempts :: string where
  "err_three_attempts = ''Falha ap'' @ [CHR 0xF3] @ ''s 3 tentativas''"

definition mark_failed :: "ref \<Rightarrow> string \<Rightarrow> manager \<Rightarrow> manager" where
  \<comment> \<open>lines 228-233 and 239-244: the item fails, leaves the processing queue if it
      is there, and joins the failed list\<close>
  "mark_failed r msg s =
     (let s1 = update_item r (\<lambda>i. i\<lparr>status := Failed, error := Some msg\<rparr>) s;
          s2 = (if item_in s1 r (processing_queue s1)
                then (case list_remove s1 r (processing_queue s1) of
                        Some ps \<Rightarrow> s1\<lparr>processing_queue := ps\<rparr>
                      | None \<Rightarrow> s1)
                else s1)
      in s2\<lparr>failed_list := failed_list s2 @ [r]\<rparr>)"

definition attempt_resolution :: "ref \<Rightarrow> real \<Rightarrow> resolve_outcome \<Rightarrow> manager \<Rightarrow> manager" where
  \<comment> \<open>lines 196-247 of \<open>_generator_worker\<close>, repeated as lines 305-351 of
      \<open>_single_generator_worker\<close>: the claimed item \<open>r\<close> is resolved at time \<open>now\<close>\<close>
  "attempt_resolution r now out s =
     (let s1 = update_item r (\<lambda>i. i\<lparr>last_attempt := Some now\<rparr>) s;
          s2 = s1\<lparr>processing_queue := processing_queue s1 @ [r]\<rparr>;
          s3 = update_item r (\<lambda>i. i\<lparr>status := Processing\<rparr>) s2
      in case out of
           Resolved res \<Rightarrow>
             (let s4 = update_item r (\<lambda>i. i\<lparr>status := Ready_to_download,
                          download_url := Some (res_download_url res),
                          file_size := (case res_file_size res of Some f \<Rightarrow> f | None \<Rightarrow> ''0 MB''),
                          title := res_title res, retry_count := 0\<rparr>) s3
              in case list_remove s4 r (processing_queue s4) of
                   Some ps \<Rightarrow> s4\<lparr>processing_queue := ps,
                                 download_queue := download_queue s4 @ [r]\<rparr>
                 | None \<Rightarrow> mark_failed r ''list.remove(x): x not in list'' s4)
         | NoResult \<Rightarrow>
             (let s4 = update_item r (\<lambda>i. i\<lparr>retry_count := retry_count i + 1\<rparr>) s3
              in if retry_count (heap s4 r) \<le> 2
                 then s4\<lparr>pending_queue := r # pending_queue s4\<rparr>
                 else mark_failed r err_three_attempts s4)
         | GeneratorRaised msg \<Rightarrow> mark_failed r (take 80 msg) s3)"

definition cooling_down :: "item \<Rightarrow> real \<Rightarrow> bool" where
  \<comment> \<open>\<open>item.get('last_attempt', 0) > current_time - 30\<close>\<close>
  "cooling_down i now = ((case last_attempt i of None \<Rightarrow> 0 | Some t \<Rightarrow> t) > now - 30)"

definition generator_exit :: "manager \<Rightarrow> manager" where
  "generator_exit s = s\<lparr>active_generators := active_generators s - 1\<rparr>"

fun generator_worker :: "int \<Rightarrow> int \<Rightarrow> gen_env list \<Rightarrow> manager \<Rightarrow> manager option" where
  \<comment> \<open>\<open>_generator_worker\<close> with \<open>max_links_to_generate\<close> and \<open>link_count\<close>; one
      environment entry per turn of the loop, \<open>None\<close> when the loop is still running
      after the last entry. \<open>stop_seen\<close>: another thread has set \<open>stopped\<close> between
      the loop test and line 184.\<close>
  "generator_worker limit link_count [] s =
     (if stopped s \<or> pending_queue s = [] \<or> \<not> link_count < limit
      then Some (generator_exit s) else None)"
| "generator_worker limit link_count (e # es) s =
     (if stopped s \<or> \<not> link_count < limit then Some (generator_exit s)
      else case pending_queue s of
        [] \<Rightarrow> Some (generator_exit s)
      | r # rest \<Rightarrow>
          let s1 = s\<lparr>pending_queue := rest\<rparr>
          in if stop_seen e
             then Some (generator_exit (s1\<lparr>stopped := True, pending_queue := r # rest\<rparr>))
             else if cooling_down (heap s1 r) (clock e)
             then generator_worker limit link_count es (s1\<lparr>pending_queue := rest @ [r]\<rparr>)
             else generator_worker limit (link_count + 1) es
                    (attempt_resolution r (clock e) (outcome e) s1))"

definition single_generator_worker :: "gen_env \<Rightarrow> manager \<Rightarrow> manager" where
  \<comment> \<open>\<open>_single_generator_worker\<close>\<close>
  "single_generator_worker e s =
     (if stopped s then s
      else case pending_queue s of
        [] \<Rightarrow> s
      | r # rest \<Rightarrow>
          let s1 = s\<lparr>pending_queue := rest\<rparr>
          in if stop_seen e then s1\<lparr>stopped := True, pending_queue := r # rest\<rparr>
             else if cooling_down (heap s1 r) (clock e)
             then s1\<lparr>pending_queue := rest @ [r]\<rparr>
             else attempt_resolution r (clock e) (outcome e) s1)"

definition generate_additional_links :: "int \<Rightarrow> gen_env list \<Rightarrow> manager \<Rightarrow> manager option" where
  \<comment> \<open>\<open>_generate_additional_links\<close>: one thread per link, each run to its end before
      the next starts; \<open>None\<close> when the environment has fewer entries than threads\<close>
  "generate_additional_links num_links envs s =
     (if pending_queue s = [] \<or> num_links \<le> 0 then Some s
      else let n = min (nat num_links) (length (pending_queue s))
           in if length envs < n then None
              else Some (fold single_generator_worker (take n envs) s))"

subsection \<open>Download workers\<close>

text \<open>
  Each process the retry loop launches ends in one of four ways, given by the
  environment: the stop flag is seen while the process runs (lines 437 and 445), the
  process exits, an exception leaves the \<open>try\<close> body, or the polling loop never ends
  (the process does not exit, or the manager stays paused).
\<close>

text \<open>
  An exited process: its return code, whether the staged file exists, whether it was
  moved and the final file exists (lines 470-471), the size text of line 474, what
  \<open>communicate\<close> returned, and the clock reading of lines 501 and 509.
\<close>

record exit_info =
  returncode :: int
  temp_exists :: bool
  relocated :: bool
  size_text :: string
  proc_stdout :: string
  proc_stderr :: string
  fail_clock :: real

datatype transfer_outcome = StopObserved | Blocked | Raised | Exited exit_info

definition err_no_aria2 :: string where
  "err_no_aria2 = ''aria2c n'' @ [CHR 0xE3] @ ''o encontrado''"

definition err_expired :: string where
  "err_expired = ''URL inv'' @ [CHR 0xE1] @ ''lida/Expirada''"

definition err_not_found :: string where
  "err_not_found = ''Arquivo n'' @ [CHR 0xE3] @ ''o encontrado''"

definition err_exhausted :: "int \<Rightarrow> string" where
  "err_exhausted max_retries =
     ''Falhou ap'' @ [CHR 0xF3] @ ''s '' @ string_of_int max_retries @ '' tentativas''"

definition url_invalid :: "string option \<Rightarrow> bool" where
  \<comment> \<open>\<open>not item['download_url'] or not item['download_url'].startswith('http')\<close>\<close>
  "url_invalid u = (case u of None \<Rightarrow> True | Some t \<Rightarrow> t = [] \<or> \<not> starts_with ''http'' t)"

definition diagnostic :: "exit_info \<Rightarrow> string" where
  \<comment> \<open>\<open>error_msg\<close>, lines 483-490\<close>
  "diagnostic x =
     (let m = (if proc_stderr x \<noteq> [] then take 150 (proc_stderr x)
               else if proc_stdout x \<noteq> [] then take 150 (proc_stdout x) else [])
      in if m = [] then ''Erro desconhecido'' else m)"

definition expired_signature :: "string \<Rightarrow> bool" where
  "expired_signature m = (contains ''Unrecognized URI'' m \<or> contains ''unsupported protocol'' m)"

definition not_found_signature :: "string \<Rightarrow> bool" where
  "not_found_signature m = (contains ''No such file or directory'' m \<or> contains ''Not Found'' m)"

definition expired_exit :: "exit_info \<Rightarrow> bool" where
  \<comment> \<open>the process failed (the \<open>else\<close> of line 482) with the diagnostic of line 492\<close>
  "expired_exit x = (\<not> (returncode x = 0 \<and> temp_exists x) \<and> expired_signature (diagnostic x))"

fun retried :: "transfer_outcome \<Rightarrow> bool" where
  \<comment> \<open>the outcomes after which the loop goes on to its next attempt\<close>
  "retried Raised = True"
| "retried (Exited x) =
     (if returncode x = 0 \<and> temp_exists x then \<not> relocated x
      else \<not> expired_signature (diagnostic x))"
| "retried StopObserved = False"
| "retried Blocked = False"

definition count_retry :: "ref \<Rightarrow> real \<Rightarrow> manager \<Rightarrow> manager" where
  \<comment> \<open>lines 500-501 and 508-509\<close>
  "count_retry r now s =
     update_item r (\<lambda>i. i\<lparr>download_retry_count := download_retry_count i + 1,
                          last_retry_time := now\<rparr>) s"

definition exhausted :: "int \<Rightarrow> ref \<Rightarrow> manager \<Rightarrow> manager" where
  \<comment> \<open>lines 524-526, after the loop\<close>
  "exhausted max_retries r s =
     (let s1 = update_item r (\<lambda>i. i\<lparr>status := Failed\<rparr>) s
      in if error (heap s1 r) = None \<or> error (heap s1 r) = Some []
         then update_item r (\<lambda>i. i\<lparr>error := Some (err_exhausted max_retries)\<rparr>) s1
         else s1)"

fun download_attempts ::
  "int \<Rightarrow> ref \<Rightarrow> int list \<Rightarrow> transfer_outcome list \<Rightarrow> manager
     \<Rightarrow> (bool \<times> manager \<times> transfer_outcome list) option" where
  \<comment> \<open>the \<open>for attempt in range(max_retries)\<close> loop over the attempts still to make;
      the result is the returned flag, the state and the outcomes of the
      environment that no process has used\<close>
  "download_attempts max_retries r [] outs s = Some (False, exhausted max_retries r s, outs)"
| "download_attempts max_retries r (attempt # atts) outs s =
     (if url_invalid (download_url (heap s r)) then download_attempts max_retries r atts outs s
      else case outs of
        [] \<Rightarrow> None
      | out # rest \<Rightarrow>
          if stopped s then Some (False, s, rest)
          else (case out of
            StopObserved \<Rightarrow> Some (False, s\<lparr>stopped := True\<rparr>, rest)
          | Blocked \<Rightarrow> None
          | Raised \<Rightarrow> download_attempts max_retries r atts rest s
          | Exited x \<Rightarrow>
              if returncode x = 0 \<and> temp_exists x
              then (if relocated x
                    then Some (True,
                           update_item r (\<lambda>i. i\<lparr>status := Completed, file_size := size_text x\<rparr>) s,
                           rest)
                    else download_attempts max_retries r atts rest s)
              else if expired_signature (diagnostic x)
              then Some (False, update_item r (\<lambda>i. i\<lparr>error := Some err_expired\<rparr>) s, rest)
              else if not_found_signature (diagnostic x)
              then (let s1 = update_item r (\<lambda>i. i\<lparr>error := Some err_not_found\<rparr>) s
                    in if attempt < max_retries - 1
                       then download_attempts max_retries r atts rest (count_retry r (fail_clock x) s1)
                       else download_attempts max_retries r atts rest s1)
              else if attempt < max_retries - 1
              then download_attempts max_retries r atts rest (count_retry r (fail_clock x) s)
              else download_attempts max_retries r atts rest s))"

definition download_with_retry ::
  "int \<Rightarrow> ref \<Rightarrow> bool \<Rightarrow> transfer_outcome list \<Rightarrow> manager
     \<Rightarrow> (bool \<times> manager \<times> transfer_outcome list) option" where
  \<comment> \<open>\<open>_download_with_retry\<close>; \<open>found\<close>: \<open>_find_aria2\<close> returns a path\<close>
  "download_with_retry max_retries r found outs s =
     (if \<not> found
      then (let s1 = update_item r (\<lambda>i. i\<lparr>status := Failed, error := Some err_no_aria2\<rparr>) s
            in Some (False, s1\<lparr>failed_list := failed_list s1 @ [r]\<rparr>, outs))
      else download_attempts max_retries r [0..max_retries - 1] outs s)"

text \<open>The values of \<open>config.get_max_downloads()\<close> and \<open>config.get_max_links()\<close>
  (\<open>core/config.py\<close> is not among the sources).\<close>

record config =
  max_downloads :: int
  max_links :: int

record worker_env =
  aria2_found :: bool
  transfers :: "transfer_outcome list"
  refill :: "gen_env list"

definition claim_for_download :: "ref \<Rightarrow> manager \<Rightarrow> manager" where
  \<comment> \<open>lines 530-531\<close>
  "claim_for_download r s =
     (let s1 = update_item r (\<lambda>i. i\<lparr>status := Downloading\<rparr>) s
      in s1\<lparr>downloading := downloading s1 @ [r]\<rparr>)"

definition download_worker :: "config \<Rightarrow> ref \<Rightarrow> worker_env \<Rightarrow> manager \<Rightarrow> manager option" where
  \<comment> \<open>\<open>_download_worker\<close>; an uncaught \<open>ValueError\<close> of \<open>remove\<close> would end the thread\<close>
  "download_worker cfg r env s =
     (let s2 = claim_for_download r s
      in case download_with_retry 5 r (aria2_found env) (transfers env) s2 of
           None \<Rightarrow> None
         | Some (success, s3, _) \<Rightarrow>
             (case list_remove s3 r (downloading s3) of
                None \<Rightarrow> Some s3
              | Some d \<Rightarrow>
                  let s4 = (if success
                            then s3\<lparr>downloading := d, completed_list := completed_list s3 @ [r]\<rparr>
                            else s3\<lparr>downloading := d, failed_list := failed_list s3 @ [r]\<rparr>)
                  in if pending_queue s4 \<noteq> [] \<and> \<not> stopped s4 \<and> \<not> paused s4
                     then (let links_needed =
                                 max 0 (max_downloads cfg - int (length (downloading s4))
                                          - int (length (download_queue s4)))
                           in if links_needed > 0
                              then generate_additional_links links_needed (refill env) s4
                              else Some s4)
                     else Some s4))"

subsection \<open>One pass of the orchestrator\<close>

text \<open>
  \<open>process_queue\<close> starts threads. The model runs each thread to its end when it is
  started, so no download thread is alive when the loop counts them, and every join
  returns at once. \<open>stop_requested\<close>: another thread calls \<open>stop_generation\<close> during
  the turn of the download loop.
\<close>

record loop_env =
  extra_links :: "gen_env list"
  worker :: worker_env
  stop_requested :: bool

record pq_env =
  generators :: "gen_env list list"
  downloads :: "loop_env list"

definition stop_generation :: "manager \<Rightarrow> manager" where
  "stop_generation s = s\<lparr>stopped := True\<rparr>"

definition pause_downloads :: "manager \<Rightarrow> manager" where
  "pause_downloads s = s\<lparr>paused := True\<rparr>"

definition resume_downloads :: "manager \<Rightarrow> manager" where
  "resume_downloads s = s\<lparr>paused := False\<rparr>"

definition reset_state :: "manager \<Rightarrow> manager" where
  "reset_state s = s\<lparr>stopped := False, active_generators := 0\<rparr>"

fun run_generators :: "int \<Rightarrow> nat \<Rightarrow> gen_env list list \<Rightarrow> manager \<Rightarrow> manager option" where
  \<comment> \<open>the generator threads of lines 582-596, one after the other\<close>
  "run_generators limit 0 envs s = Some s"
| "run_generators limit (Suc n) [] s = None"
| "run_generators limit (Suc n) (e # es) s =
     (case generator_worker limit 0 e s of
        None \<Rightarrow> None
      | Some s1 \<Rightarrow> run_generators limit n es s1)"

fun download_loop ::
  "config \<Rightarrow> loop_env list \<Rightarrow> ref list \<Rightarrow> manager \<Rightarrow> (py_error \<times> manager + manager) option" where
  \<comment> \<open>the loop of lines 614-634 over \<open>items_to_download\<close>; \<open>Inl\<close>: an exception leaves
      the loop\<close>
  "download_loop cfg [] items s = (if items = [] \<or> stopped s then Some (Inr s) else None)"
| "download_loop cfg (e # es) items s =
     (if items = [] \<or> stopped s then Some (Inr s)
      else
        case (if int (length items) < max_downloads cfg * 2 \<and> pending_queue s \<noteq> []
              then map_option (\<lambda>s1. (download_queue s1, s1))
                     (generate_additional_links (max_downloads cfg - int (length items))
                        (extra_links e) s)
              else Some (items, s)) of
          None \<Rightarrow> None
        | Some (items1, s1) \<Rightarrow>
            if 0 < max_downloads cfg
            then (case items1 of
                    [] \<Rightarrow> Some (Inl (IndexError, s1))
                  | it # items2 \<Rightarrow>
                      (case download_worker cfg it (worker e) s1 of
                         None \<Rightarrow> None
                       | Some s2 \<Rightarrow>
                           download_loop cfg es items2
                             (if stop_requested e then stop_generation s2 else s2)))
            else download_loop cfg es items1
                   (if stop_requested e then stop_generation s1 else s1))"

definition process_queue :: "config \<Rightarrow> pq_env \<Rightarrow> manager \<Rightarrow> (py_error \<times> manager + manager) option" where
  "process_queue cfg env s =
     (let s0 = s\<lparr>stopped := False\<rparr>
      in if pending_queue s0 = [] then Some (Inr s0)
         else
           let max_generators = min (max_links cfg) (max_downloads cfg);
               s1 = s0\<lparr>active_generators := max_generators\<rparr>
           in case run_generators (max_downloads cfg * 2) (nat max_generators) (generators env) s1 of
                None \<Rightarrow> None
              | Some s2 \<Rightarrow>
                  if stopped s2 then Some (Inr s2)
                  else if download_queue s2 = [] then Some (Inr s2)
                  else (case download_loop cfg (downloads env) (download_queue s2) s2 of
                          None \<Rightarrow> None
                        | Some (Inl ex) \<Rightarrow> Some (Inl ex)
                        | Some (Inr s3) \<Rightarrow>
                            Some (Inr (s3\<lparr>download_queue := [], pending_queue := [],
                                          downloading := []\<rparr>))))"

subsection \<open>Persistence\<close>

text \<open>
  The database file holds the six lists of dictionaries by value. Loading builds
  a new dictionary for every entry; a missing key of the document reads as the
  empty list, a missing or unreadable file leaves the manager as it is.
\<close>

record document =
  doc_pending :: "item list option"
  doc_processing :: "item list option"
  doc_download_ready :: "item list option"
  doc_downloading :: "item list option"
  doc_completed :: "item list option"
  doc_failed :: "item list option"

datatype db_file = NoFile | Unreadable | Document document

definition save_database :: "manager \<Rightarrow> db_file" where
  "save_database s = Document \<lparr>
     doc_pending = Some (map (heap s) (pending_queue s)),
     doc_processing = Some (map (heap s) (processing_queue s)),
     doc_download_ready = Some (map (heap s) (download_queue s)),
     doc_downloading = Some (map (heap s) (downloading s)),
     doc_completed = Some (map (heap s) (completed_list s)),
     doc_failed = Some (map (heap s) (failed_list s))\<rparr>"

fun alloc_items :: "item list \<Rightarrow> manager \<Rightarrow> ref list \<times> manager" where
  "alloc_items [] s = ([], s)"
| "alloc_items (i # is) s =
     (let r = next_ref s;
          (rs, s1) = alloc_items is (s\<lparr>heap := (heap s)(r := i), next_ref := Suc r\<rparr>)
      in (r # rs, s1))"

definition get_list :: "item list option \<Rightarrow> item list" where
  \<comment> \<open>\<open>data.get(key, [])\<close>\<close>
  "get_list v = (case v of None \<Rightarrow> [] | Some xs \<Rightarrow> xs)"

definition load_database :: "db_file \<Rightarrow> manager \<Rightarrow> manager" where
  "load_database f s =
     (case f of
        Document d \<Rightarrow>
          (let (p, s1) = alloc_items (get_list (doc_pending d)) s;
               (g, s2) = alloc_items (get_list (doc_processing d)) s1;
               (q, s3) = alloc_items (get_list (doc_download_ready d)) s2;
               (w, s4) = alloc_items (get_list (doc_downloading d)) s3;
               (c, s5) = alloc_items (get_list (doc_completed d)) s4;
               (x, s6) = alloc_items (get_list (doc_failed d)) s5
           in s6\<lparr>pending_queue := p, processing_queue := g, download_queue := q,
                 downloading := w, completed_list := c, failed_list := x\<rparr>)
      | _ \<Rightarrow> s)"

subsection \<open>Where an item is\<close>

definition queues_holding :: "manager \<Rightarrow> ref \<Rightarrow> status list" where
  \<comment> \<open>the stages whose queue holds the item, each queue named by the status its
      items carry\<close>
  "queues_holding s r =
     (if r \<in> set (pending_queue s) then [Pending] else []) @
     (if r \<in> set (processing_queue s) then [Processing] else []) @
     (if r \<in> set (download_queue s) then [Ready_to_download] else []) @
     (if r \<in> set (downloading s) then [Downloading] else []) @
     (if r \<in> set (completed_list s) then [Completed] else []) @
     (if r \<in> set (failed_list s) then [Failed] else [])"

definition status_agrees :: "manager \<Rightarrow> ref \<Rightarrow> bool" where
  "status_agrees s r = (queues_holding s r = [status (heap s r)])"

definition total_items :: "manager \<Rightarrow> nat" where
  "total_items s = length (pending_queue s) + length (processing_queue s) +
     length (download_queue s) + length (downloading s) + length (completed_list s) +
     length (failed_list s)"

definition only_item :: "ref \<Rightarrow> manager \<Rightarrow> manager \<Rightarrow> bool" where
  \<comment> \<open>the two states differ at most in the dictionary at \<open>r\<close>, whose status and
      download link are the same\<close>
  "only_item r s s' = (s'\<lparr>heap := heap s\<rparr> = s \<and> (\<forall>q. q \<noteq> r \<longrightarrow> heap s' q = heap s q) \<and>
     status (heap s' r) = status (heap s r) \<and> download_url (heap s' r) = download_url (heap s r))"

subsection \<open>Concrete runs\<close>

text \<open>
  The states and environments at which the operations are evaluated below: one or
  three videos enqueued into a fresh manager, a configuration of one download and one
  link generator at a time, a resolver that fails or succeeds, and transfers that
  fail, succeed or are stopped.
\<close>

definition cfg_one :: config where
  "cfg_one = \<lparr>max_downloads = 1, max_links = 1\<rparr>"

definition one_pending :: manager where
  "one_pending = snd (add_to_queue ''https://youtu.be/a'' ''480p'' 1700000000 init_manager)"

definition three_pending :: manager where
  "three_pending =
     snd (add_to_queue ''https://youtu.be/c'' ''480p'' 1700000002
       (snd (add_to_queue ''https://youtu.be/b'' ''480p'' 1700000001 one_pending)))"

definition failure :: "real \<Rightarrow> gen_env" where
  "failure t = \<lparr>stop_seen = False, clock = t, outcome = NoResult\<rparr>"

definition success :: "real \<Rightarrow> gen_env" where
  "success t = \<lparr>stop_seen = False, clock = t,
     outcome = Resolved \<lparr>res_download_url = ''https://cdn.example/v.mp4'', res_title = ''v'',
                          res_file_size = Some ''10 MB''\<rparr>\<rparr>"

definition one_ready :: manager where
  "one_ready = single_generator_worker (success 1700000010) one_pending"

definition exit_failed :: "string \<Rightarrow> transfer_outcome" where
  "exit_failed msg = Exited \<lparr>returncode = 1, temp_exists = False, relocated = False,
     size_text = [], proc_stdout = [], proc_stderr = msg, fail_clock = 1700000100\<rparr>"

definition exit_ok :: transfer_outcome where
  "exit_ok = Exited \<lparr>returncode = 0, temp_exists = True, relocated = True,
     size_text = ''10.00 MB'', proc_stdout = [], proc_stderr = [], fail_clock = 0\<rparr>"

definition refused :: "transfer_outcome list" where
  "refused = (let f = exit_failed ''Connection refused'' in [f, f, f, f, f])"

definition transfers_only :: "transfer_outcome list \<Rightarrow> worker_env" where
  "transfers_only outs = \<lparr>aria2_found = True, transfers = outs, refill = []\<rparr>"

definition loop_turn :: "transfer_outcome list \<Rightarrow> bool \<Rightarrow> loop_env" where
  "loop_turn outs stop =
     \<lparr>extra_links = [], worker = transfers_only outs, stop_requested = stop\<rparr>"

definition expired_info :: exit_info where
  "expired_info = \<lparr>returncode = 1, temp_exists = False, relocated = False, size_text = [],
     proc_stdout = [],
     proc_stderr = ''Exception: Unrecognized URI or unsupported protocol: hxxp://cdn/v.mp4'',
     fail_clock = 1700000110\<rparr>"

definition expired_run :: worker_env where
  "expired_run = \<lparr>aria2_found = True,
     transfers = [exit_failed ''Connection refused'', Exited expired_info, exit_ok],
     refill = [failure 1700000200]\<rparr>"

definition frozen_doc :: document where
  "frozen_doc = \<lparr>doc_pending = Some [],
     doc_processing = Some [blank_item\<lparr>item_id := ''yt_1'', status := Processing\<rparr>],
     doc_download_ready = Some [],
     doc_downloading = Some [blank_item\<lparr>item_id := ''yt_2'', status := Downloading\<rparr>],
     doc_completed = Some [], doc_failed = Some []\<rparr>"

section \<open>Properties\<close>

subsection \<open>The progress parser\<close>

lemmas parse_defs = parse_aria2_progress_def pattern_def pattern2_def pattern3_def lit_def
  is_digit_def is_space_def py_int_of_str_def nat_of_digits_def digit_val_def
  max_str_digits_def py_int_of_float_str_def int_of_float_tenths_def round_half_even_def

lemma match_here_One_char:
  "match_here p s = Some r \<Longrightarrow> (c, One) \<in> set p \<Longrightarrow> \<exists>x\<in>set s. c x"
  by (induction p s arbitrary: r rule: match_here.induct)
     (auto split: if_splits option.splits list.splits)

lemma re_search_One_char:
  "re_search p s = Some r \<Longrightarrow> (c, One) \<in> set p \<Longrightarrow> \<exists>x\<in>set s. c x"
proof (induction p s rule: re_search.induct)
  case (1 p)
  then show ?case using match_here_One_char[of p "[]" r c] by simp
next
  case (2 p x xs)
  show ?case
  proof (cases "match_here p (x # xs)")
    case None
    with 2 show ?thesis by auto
  next
    case (Some r')
    from match_here_One_char[OF Some "2.prems"(2)] show ?thesis .
  qed
qed

lemma re_search_needs_percent:
  assumes "(lit CHR ''%'', One) \<in> set p" and "CHR ''%'' \<notin> set s"
  shows "re_search p s = None"
proof (rule ccontr)
  assume "re_search p s \<noteq> None"
  then obtain r where "re_search p s = Some r" by auto
  from re_search_One_char[OF this assms(1)] assms(2) show False
    by (auto simp: lit_def)
qed

lemma no_percent_no_match:
  assumes "CHR ''%'' \<notin> set s"
  shows "re_search pattern s = None \<and> re_search pattern2 s = None \<and> re_search pattern3 s = None"
  using assms by (simp add: re_search_needs_percent pattern_def pattern2_def pattern3_def)

lemma parse_unmatched:
  assumes "re_search pattern s = None" "re_search pattern2 s = None" "re_search pattern3 s = None"
  shows "parse_aria2_progress s = Inr 0"
  using assms by (simp add: parse_aria2_progress_def)

lemma re_search_percent_nonempty:
  assumes "re_search p s = Some m" and "(lit CHR ''%'', One) \<in> set p"
  shows "s \<noteq> []"
  using re_search_One_char[OF assms] by auto

lemma parse_first_pattern:
  assumes "re_search pattern s = Some m"
  shows "parse_aria2_progress s = py_int_of_str (m ! 1)"
proof -
  have "s \<noteq> []" by (rule re_search_percent_nonempty[OF assms]) (simp add: pattern_def)
  with assms show ?thesis by (simp add: parse_aria2_progress_def)
qed

lemma parse_second_pattern:
  assumes "re_search pattern s = None" and "re_search pattern2 s = Some m"
  shows "parse_aria2_progress s = py_int_of_str (m ! 0)"
proof -
  have "s \<noteq> []" by (rule re_search_percent_nonempty[OF assms(2)]) (simp add: pattern2_def)
  with assms show ?thesis by (simp add: parse_aria2_progress_def)
qed

lemma parse_third_pattern:
  assumes "re_search pattern s = None" and "re_search pattern2 s = None"
    and "re_search pattern3 s = Some m"
  shows "parse_aria2_progress s =
           (case py_int_of_float_str (concat (take 3 m)) of Inl _ \<Rightarrow> Inr 0 | Inr n \<Rightarrow> Inr n)"
proof -
  have "s \<noteq> []" by (rule re_search_percent_nonempty[OF assms(3)]) (simp add: pattern3_def)
  with assms show ?thesis by (simp add: parse_aria2_progress_def split: sum.splits)
qed

text \<open>
  C7. \<open>_parse_aria2_progress\<close> applies its three matchers in cascade and the first
  that matches decides. In general: when the parenthesised pattern matches, the
  result is \<open>int\<close> of its group; when it does not and the pattern with trailing white
  space matches, the result is \<open>int\<close> of that group; when neither does and the bare
  pattern matches, the result is \<open>int(float(group))\<close>, or 0 if that raises; when none
  matches, and so for every text without a percent sign, the result is 0. On the
  inputs of the claim it returns 45 for \<open>"(45%) "\<close>, 78 for \<open>"78% "\<close>, 12 for
  \<open>"12.5%"\<close> and 0 for the empty string. Each matcher is seen deciding against the
  later ones: \<open>"10% (20%)"\<close> and \<open>"1.5% (20%)"\<close> give the parenthesised 20 although
  the second pattern finds 10 or 5 and the third 10 or 1; \<open>"1.5% "\<close>, also with a
  tab for the blank, gives the 5 of the second pattern although the third finds
  1.5; \<open>"1.5%x"\<close>, where no white space follows, gives the 1 of the third. The
  groups the three searches capture on the claim's inputs are as the patterns say.
\<close>

theorem parse_aria2_progress_cascade:
  "parse_aria2_progress ''(45%) '' = Inr 45 \<and>
   parse_aria2_progress ''78% '' = Inr 78 \<and>
   parse_aria2_progress ''12.5%'' = Inr 12 \<and>
   parse_aria2_progress [] = Inr 0 \<and>
   parse_aria2_progress ''10% (20%)'' = Inr 20 \<and>
   (re_search pattern s = None \<and> re_search pattern2 s = None \<and> re_search pattern3 s = None
      \<longrightarrow> parse_aria2_progress s = Inr 0) \<and>
   (CHR ''%'' \<notin> set s \<longrightarrow> parse_aria2_progress s = Inr 0) \<and>
   parse_aria2_progress ''1.5% (20%)'' = Inr 20 \<and>
   parse_aria2_progress ''1.5% '' = Inr 5 \<and>
   parse_aria2_progress (''1.5%'' @ [CHR 0x09]) = Inr 5 \<and>
   parse_aria2_progress ''1.5%x'' = Inr 1 \<and>
   re_search pattern ''(45%) '' = Some [''('', ''45'', ''%'', '')''] \<and>
   re_search pattern2 ''(45%) '' = None \<and>
   re_search pattern ''78% '' = None \<and>
   re_search pattern2 ''78% '' = Some [''78'', ''%'', '' ''] \<and>
   re_search pattern2 ''12.5%'' = None \<and>
   re_search pattern3 ''12.5%'' = Some [''12'', ''.'', ''5'', ''%''] \<and>
   re_search pattern2 ''1.5% '' = Some [''5'', ''%'', '' ''] \<and>
   re_search pattern3 ''1.5% '' = Some [''1'', ''.'', ''5'', ''%''] \<and>
   (re_search pattern s = Some m \<longrightarrow> parse_aria2_progress s = py_int_of_str (m ! 1)) \<and>
   (re_search pattern s = None \<and> re_search pattern2 s = Some m
      \<longrightarrow> parse_aria2_progress s = py_int_of_str (m ! 0)) \<and>
   (re_search pattern s = None \<and> re_search pattern2 s = None \<and> re_search pattern3 s = Some m
      \<longrightarrow> parse_aria2_progress s =
          (case py_int_of_float_str (concat (take 3 m)) of Inl _ \<Rightarrow> Inr 0 | Inr n \<Rightarrow> Inr n))"
proof -
  have a: "parse_aria2_progress ''(45%) '' = Inr 45" by (simp add: parse_defs)
  have b: "parse_aria2_progress ''78% '' = Inr 78" by (simp add: parse_defs)
  have c: "parse_aria2_progress ''12.5%'' = Inr 12" by (simp add: parse_defs)
  have d: "parse_aria2_progress [] = Inr 0" by (simp add: parse_aria2_progress_def)
  have e: "parse_aria2_progress ''10% (20%)'' = Inr 20" by (simp add: parse_defs)
  have f: "CHR ''%'' \<notin> set s \<longrightarrow> parse_aria2_progress s = Inr 0"
    using no_percent_no_match[of s] parse_unmatched[of s] by blast
  have g: "parse_aria2_progress ''1.5% (20%)'' = Inr 20" by (simp add: parse_defs)
  have h: "parse_aria2_progress ''1.5% '' = Inr 5" by (simp add: parse_defs)
  have i: "parse_aria2_progress (''1.5%'' @ [CHR 0x09]) = Inr 5" by (simp add: parse_defs)
  have j: "parse_aria2_progress ''1.5%x'' = Inr 1" by (simp add: parse_defs)
  have k: "re_search pattern ''(45%) '' = Some [''('', ''45'', ''%'', '')'']"
    "re_search pattern2 ''(45%) '' = None"
    "re_search pattern ''78% '' = None"
    "re_search pattern2 ''78% '' = Some [''78'', ''%'', '' '']"
    "re_search pattern2 ''12.5%'' = None"
    "re_search pattern3 ''12.5%'' = Some [''12'', ''.'', ''5'', ''%'']"
    "re_search pattern2 ''1.5% '' = Some [''5'', ''%'', '' '']"
    "re_search pattern3 ''1.5% '' = Some [''1'', ''.'', ''5'', ''%'']"
    by (simp_all add: pattern_def pattern2_def pattern3_def lit_def is_digit_def is_space_def)
  from a b c d e f g h i j k parse_unmatched[of s] parse_first_pattern[of s m]
    parse_second_pattern[of s m] parse_third_pattern[of s m]
  show ?thesis by blast
qed

theorem parse_aria2_progress_cascade_witness:
  "(re_search pattern ''no progress'' = None \<and> re_search pattern2 ''no progress'' = None \<and>
    re_search pattern3 ''no progress'' = None \<and> CHR ''%'' \<notin> set ''no progress'' \<and>
    parse_aria2_progress ''no progress'' = Inr 0) \<and>
   (re_search pattern ''1.5% (20%)'' = Some [''('', ''20'', ''%'', '')''] \<and>
    parse_aria2_progress ''1.5% (20%)'' = py_int_of_str ([''('', ''20'', ''%'', '')''] ! 1)) \<and>
   (re_search pattern ''1.5% '' = None \<and>
    re_search pattern2 ''1.5% '' = Some [''5'', ''%'', '' ''] \<and>
    parse_aria2_progress ''1.5% '' = py_int_of_str ([''5'', ''%'', '' ''] ! 0)) \<and>
   (re_search pattern ''1.5%x'' = None \<and> re_search pattern2 ''1.5%x'' = None \<and>
    re_search pattern3 ''1.5%x'' = Some [''1'', ''.'', ''5'', ''%''] \<and>
    parse_aria2_progress ''1.5%x'' =
      (case py_int_of_float_str (concat (take 3 [''1'', ''.'', ''5'', ''%''])) of
         Inl _ \<Rightarrow> Inr 0 | Inr n \<Rightarrow> Inr n))"
proof -
  have h0: "CHR ''%'' \<notin> set ''no progress''" by simp
  have h1: "re_search pattern ''1.5% (20%)'' = Some [''('', ''20'', ''%'', '')'']"
    by (simp add: pattern_def lit_def is_digit_def)
  have h2: "re_search pattern ''1.5% '' = None"
    "re_search pattern2 ''1.5% '' = Some [''5'', ''%'', '' '']"
    by (simp_all add: pattern_def pattern2_def lit_def is_digit_def is_space_def)
  have h3: "re_search pattern ''1.5%x'' = None" "re_search pattern2 ''1.5%x'' = None"
    "re_search pattern3 ''1.5%x'' = Some [''1'', ''.'', ''5'', ''%'']"
    by (simp_all add: pattern_def pattern2_def pattern3_def lit_def is_digit_def is_space_def)
  have w0: "parse_aria2_progress ''no progress'' = Inr 0"
    using parse_aria2_progress_cascade[of "''no progress''"] h0 by blast
  have w1: "parse_aria2_progress ''1.5% (20%)'' = py_int_of_str ([''('', ''20'', ''%'', '')''] ! 1)"
    using parse_aria2_progress_cascade[of "''1.5% (20%)''" "[''('', ''20'', ''%'', '')'']"] h1
    by blast
  have w2: "parse_aria2_progress ''1.5% '' = py_int_of_str ([''5'', ''%'', '' ''] ! 0)"
    using parse_aria2_progress_cascade[of "''1.5% ''" "[''5'', ''%'', '' '']"] h2 by blast
  have w3: "parse_aria2_progress ''1.5%x'' =
      (case py_int_of_float_str (concat (take 3 [''1'', ''.'', ''5'', ''%''])) of
         Inl _ \<Rightarrow> Inr 0 | Inr n \<Rightarrow> Inr n)"
    using parse_aria2_progress_cascade[of "''1.5%x''" "[''1'', ''.'', ''5'', ''%'']"] h3 by blast
  from no_percent_no_match[OF h0] h0 h1 h2 h3 w0 w1 w2 w3 show ?thesis by blast
qed

subsection \<open>Evaluating the queue operations\<close>

lemmas model_defs = add_to_queue_def init_manager_def new_item_id_def string_of_int_def
  py_int_of_real_def binary64_def binary64_pos_def binary_exponent_def pow2_def
  round_half_even_real_def update_item_def same_item_def item_in_def list_remove_def
  mark_failed_def attempt_resolution_def cooling_down_def generator_exit_def
  single_generator_worker_def generate_additional_links_def Let_def
  queues_holding_def status_agrees_def total_items_def err_three_attempts_def
  download_with_retry_def download_worker_def claim_for_download_def url_invalid_def starts_with_def diagnostic_def
  expired_signature_def not_found_signature_def count_retry_def exhausted_def
  process_queue_def stop_generation_def
  err_no_aria2_def err_expired_def err_not_found_def err_exhausted_def upto.simps

lemmas scenario_defs = cfg_one_def one_pending_def three_pending_def failure_def success_def
  one_ready_def exit_failed_def exit_ok_def transfers_only_def refused_def loop_turn_def
  expired_info_def expired_run_def frozen_doc_def

text \<open>
  C1 (the code breaks it). An item's status should name the one queue that holds it.
  That holds for a freshly enqueued item and for a resolved one. A generator worker
  whose resolver fails puts the item back into the pending queue without taking it
  out of the processing queue, and leaves its status at processing: after the run
  the item is in two queues. A download worker whose transfer is stopped moves the
  item to the failed list, leaves it in the download queue, and leaves its status at
  downloading.
\<close>

theorem status_disagrees_with_queues:
  "status_agrees one_pending 0 \<and>
   (\<exists>s'. generator_worker 2 0
            [failure 1700000001, failure 1700000013, failure 1700000040] one_pending = Some s' \<and>
         pending_queue s' = [0] \<and> processing_queue s' = [0, 0] \<and>
         status (heap s' 0) = Processing \<and>
         queues_holding s' 0 = [Pending, Processing] \<and> \<not> status_agrees s' 0) \<and>
   status_agrees one_ready 0 \<and>
   (\<exists>s'. download_worker cfg_one 0 (transfers_only [StopObserved]) one_ready = Some s' \<and>
         queues_holding s' 0 = [Ready_to_download, Failed] \<and>
         status (heap s' 0) = Downloading \<and> \<not> status_agrees s' 0)"
proof -
  have a: "status_agrees one_pending 0"
    by (simp add: scenario_defs model_defs)
  have b: "\<exists>s'. generator_worker 2 0
            [failure 1700000001, failure 1700000013, failure 1700000040] one_pending = Some s' \<and>
         pending_queue s' = [0] \<and> processing_queue s' = [0, 0] \<and>
         status (heap s' 0) = Processing \<and>
         queues_holding s' 0 = [Pending, Processing] \<and> \<not> status_agrees s' 0"
    by (simp add: scenario_defs model_defs)
  have c: "status_agrees one_ready 0"
    by (simp add: scenario_defs model_defs)
  have d: "\<exists>s'. download_worker cfg_one 0 (transfers_only [StopObserved]) one_ready = Some s' \<and>
         queues_holding s' 0 = [Ready_to_download, Failed] \<and>
         status (heap s' 0) = Downloading \<and> \<not> status_agrees s' 0"
    by (simp add: scenario_defs model_defs)
  from a b c d show ?thesis by blast
qed

text \<open>
  C2 (the code breaks it). The number of entries of the six queues should stay the
  same. One generator worker whose resolver fails twice turns one entry into three
  (the item is pending once and in the processing queue twice), and so does the pass
  of \<open>process_queue\<close> that runs this worker. A pass over three videos that the user
  stops after the first download ends with one entry: the lists are cleared with
  the second video resolved and the third still pending.
\<close>

theorem item_count_not_conserved:
  "total_items one_pending = 1 \<and>
   (\<exists>s'. generator_worker 2 0
            [failure 1700000001, failure 1700000013, failure 1700000040] one_pending = Some s' \<and>
         total_items s' = 3) \<and>
   (\<exists>s'. process_queue cfg_one
            \<lparr>generators = [[failure 1700000001, failure 1700000013, failure 1700000040]],
             downloads = []\<rparr> one_pending = Some (Inr s') \<and>
         pending_queue s' = [0] \<and> processing_queue s' = [0, 0] \<and> total_items s' = 3) \<and>
   total_items three_pending = 3 \<and>
   (\<exists>s'. process_queue cfg_one
            \<lparr>generators = [[success 1700000010, success 1700000013]],
             downloads = [loop_turn [exit_ok] True]\<rparr> three_pending = Some (Inr s') \<and>
         completed_list s' = [0] \<and> total_items s' = 1)"
proof -
  have a: "total_items one_pending = 1" "total_items three_pending = 3"
    by (simp_all add: scenario_defs model_defs)
  have b: "\<exists>s'. generator_worker 2 0
            [failure 1700000001, failure 1700000013, failure 1700000040] one_pending = Some s' \<and>
         total_items s' = 3"
    by (simp add: scenario_defs model_defs)
  have c: "\<exists>s'. process_queue cfg_one
            \<lparr>generators = [[failure 1700000001, failure 1700000013, failure 1700000040]],
             downloads = []\<rparr> one_pending = Some (Inr s') \<and>
         pending_queue s' = [0] \<and> processing_queue s' = [0, 0] \<and> total_items s' = 3"
    by (simp add: scenario_defs model_defs)
  have d: "\<exists>s'. process_queue cfg_one
            \<lparr>generators = [[success 1700000010, success 1700000013]],
             downloads = [loop_turn [exit_ok] True]\<rparr> three_pending = Some (Inr s') \<and>
         completed_list s' = [0] \<and> total_items s' = 1"
    by (simp add: scenario_defs model_defs)
  from a b c d show ?thesis by blast
qed

text \<open>
  What does hold of the two retry counters: one call of \<open>_download_with_retry\<close> raises
  \<open>download_retry_count\<close> by at most 4, and a resolution attempt on an item that has
  failed at most twice leaves \<open>retry_count\<close> at 3 or below; a failed resolution adds
  one, puts the item back at the front of the pending queue while the new count is
  at most 2, and otherwise fails the item with the text of line 229.
\<close>

lemma exhausted_retry_count:
  "download_retry_count (heap (exhausted m r s) r) = download_retry_count (heap s r)"
  by (simp add: exhausted_def update_item_def Let_def)

lemma attempt_step:
  assumes "download_attempts m r (a # atts) outs s = Some (ok, s3, rest)"
  shows "download_retry_count (heap s3 r) \<le> download_retry_count (heap s r) \<or>
         (\<exists>outs' s1. download_attempts m r atts outs' s1 = Some (ok, s3, rest) \<and>
            download_retry_count (heap s1 r)
              \<le> download_retry_count (heap s r) + (if a < m - 1 then 1 else 0))"
proof (cases "url_invalid (download_url (heap s r))")
  case True
  with assms have "download_attempts m r atts outs s = Some (ok, s3, rest)" by simp
  then show ?thesis by (intro disjI2 exI[of _ outs] exI[of _ s]) simp
next
  case nu: False
  show ?thesis
  proof (cases outs)
    case Nil
    with assms nu show ?thesis by simp
  next
    case (Cons out rest')
    show ?thesis
    proof (cases "stopped s")
      case True
      with assms nu Cons show ?thesis by auto
    next
      case ns: False
      show ?thesis
      proof (cases out)
        case StopObserved
        with assms nu Cons ns show ?thesis by auto
      next
        case Blocked
        with assms nu Cons ns show ?thesis by auto
      next
        case Raised
        with assms nu Cons ns have "download_attempts m r atts rest' s = Some (ok, s3, rest)"
          by simp
        then show ?thesis by (intro disjI2 exI[of _ rest'] exI[of _ s]) simp
      next
        case (Exited x)
        let ?s1 = "update_item r (\<lambda>i. i\<lparr>error := Some err_not_found\<rparr>) s"
        have c1: "download_retry_count (heap ?s1 r) = download_retry_count (heap s r)"
          by (simp add: update_item_def)
        have c2: "\<And>t u. download_retry_count (heap (count_retry r u t) r)
                     = download_retry_count (heap t r) + 1"
          by (simp add: count_retry_def update_item_def)
        from assms nu Cons ns Exited
        consider (ret) "download_retry_count (heap s3 r) \<le> download_retry_count (heap s r)"
          | (same) "download_attempts m r atts rest' s = Some (ok, s3, rest)"
          | (nf) "download_attempts m r atts rest' ?s1 = Some (ok, s3, rest)"
          | (nfc) "a < m - 1"
              "download_attempts m r atts rest' (count_retry r (fail_clock x) ?s1)
                 = Some (ok, s3, rest)"
          | (gc) "a < m - 1"
              "download_attempts m r atts rest' (count_retry r (fail_clock x) s)
                 = Some (ok, s3, rest)"
          by (auto simp: Let_def update_item_def split: if_splits)
        then show ?thesis
        proof cases
          case ret
          then show ?thesis by simp
        next
          case same
          then show ?thesis by (intro disjI2 exI[of _ rest'] exI[of _ s]) simp
        next
          case nf
          then show ?thesis using c1 by (intro disjI2 exI[of _ rest'] exI[of _ ?s1]) simp
        next
          case nfc
          then show ?thesis using c1 c2
            by (intro disjI2 exI[of _ rest'] exI[of _ "count_retry r (fail_clock x) ?s1"]) simp
        next
          case gc
          then show ?thesis using c2
            by (intro disjI2 exI[of _ rest'] exI[of _ "count_retry r (fail_clock x) s"]) simp
        qed
      qed
    qed
  qed
qed

lemma download_attempts_retry_bound:
  "download_attempts m r atts outs s = Some (ok, s3, rest) \<Longrightarrow>
     download_retry_count (heap s3 r)
       \<le> download_retry_count (heap s r) + int (length (filter (\<lambda>a. a < m - 1) atts))"
proof (induction atts arbitrary: outs s)
  case Nil
  then show ?case by (auto simp: exhausted_retry_count)
next
  case (Cons a atts)
  from attempt_step[OF Cons.prems]
  show ?case
  proof
    assume "download_retry_count (heap s3 r) \<le> download_retry_count (heap s r)"
    then show ?thesis by simp
  next
    assume "\<exists>outs' s1. download_attempts m r atts outs' s1 = Some (ok, s3, rest) \<and>
            download_retry_count (heap s1 r)
              \<le> download_retry_count (heap s r) + (if a < m - 1 then 1 else 0)"
    then obtain outs' s1 where st: "download_attempts m r atts outs' s1 = Some (ok, s3, rest)"
      "download_retry_count (heap s1 r)
              \<le> download_retry_count (heap s r) + (if a < m - 1 then 1 else 0)" by blast
    from Cons.IH[OF st(1)] st(2) show ?thesis by (simp split: if_splits)
  qed
qed

lemma download_with_retry_bound:
  assumes "download_with_retry 5 r found outs s = Some (ok, s3, rest)"
  shows "download_retry_count (heap s3 r) \<le> download_retry_count (heap s r) + 4"
proof (cases found)
  case False
  with assms show ?thesis by (auto simp: download_with_retry_def update_item_def Let_def)
next
  case True
  with assms have "download_attempts 5 r [0..5 - 1] outs s = Some (ok, s3, rest)"
    by (simp add: download_with_retry_def)
  from download_attempts_retry_bound[OF this] show ?thesis
    by (simp add: upto.simps)
qed

lemma mark_failed_self:
  "status (heap (mark_failed r msg s) r) = Failed"
  "error (heap (mark_failed r msg s) r) = Some msg"
  "retry_count (heap (mark_failed r msg s) r) = retry_count (heap s r)"
  "failed_list (mark_failed r msg s) = failed_list s @ [r]"
  "pending_queue (mark_failed r msg s) = pending_queue s"
  by (auto simp: mark_failed_def update_item_def Let_def split: option.splits)

lemma resolution_failure_counts:
  "retry_count (heap (attempt_resolution r now NoResult s) r) = retry_count (heap s r) + 1"
  "retry_count (heap s r) + 1 \<le> 2 \<Longrightarrow>
     pending_queue (attempt_resolution r now NoResult s) = r # pending_queue s \<and>
     failed_list (attempt_resolution r now NoResult s) = failed_list s"
  "\<not> retry_count (heap s r) + 1 \<le> 2 \<Longrightarrow>
     pending_queue (attempt_resolution r now NoResult s) = pending_queue s \<and>
     failed_list (attempt_resolution r now NoResult s) = failed_list s @ [r] \<and>
     status (heap (attempt_resolution r now NoResult s) r) = Failed \<and>
     error (heap (attempt_resolution r now NoResult s) r) = Some err_three_attempts"
  by (auto simp: attempt_resolution_def mark_failed_self update_item_def Let_def)

lemma resolution_retry_bound:
  "retry_count (heap s r) \<le> 2 \<Longrightarrow> retry_count (heap (attempt_resolution r now out s) r) \<le> 3"
  by (auto simp: attempt_resolution_def mark_failed_self update_item_def Let_def
           split: resolve_outcome.splits option.splits)

text \<open>
  C3 (the code breaks it). \<open>download_retry_count\<close> should never exceed 5. One call of
  \<open>_download_with_retry\<close> raises it by at most 4, but \<open>process_queue\<close> never takes a
  started item out of \<open>download_queue\<close> and copies that queue again while videos are
  pending: with one download at a time and three videos, the first video is handed
  to a download worker a second time, and after two workers whose five transfers
  all fail its counter is 8. (The pass ends here only because the user stops it.)
\<close>

theorem download_retry_count_exceeds_cap:
  "\<exists>s'. process_queue cfg_one
           \<lparr>generators = [[success 1700000010, success 1700000013]],
            downloads = [loop_turn refused False, loop_turn refused True]\<rparr>
           three_pending = Some (Inr s') \<and>
        download_retry_count (heap s' 0) = 8 \<and> failed_list s' = [0, 0] \<and>
        status (heap s' 0) = Failed"
  by (simp add: scenario_defs model_defs)

text \<open>
  C5 (the code breaks it). A stop seen during a transfer should leave the item
  neither completed nor failed. \<open>_download_with_retry\<close> returns \<open>False\<close> without
  touching the item's status or error, and \<open>_download_worker\<close> treats that as a
  failure: here the second transfer is stopped and the item ends in the failed
  list, its status still downloading and no error on it.
\<close>

theorem stopped_transfer_lands_in_failed_list:
  "\<exists>s'. download_worker cfg_one 0
           (transfers_only [exit_failed ''Connection refused'', StopObserved]) one_ready = Some s' \<and>
        failed_list s' = [0] \<and> completed_list s' = [] \<and> downloading s' = [] \<and>
        status (heap s' 0) = Downloading \<and> error (heap s' 0) = None \<and> stopped s'"
  by (simp add: scenario_defs model_defs)

text \<open>
  C8 (the code breaks it). Only a failed item should carry an error. A transfer that
  first fails with a "Not Found" diagnostic and then succeeds leaves the item
  completed with the error of the first attempt still on it.
\<close>

theorem completed_item_keeps_error:
  "\<exists>s'. download_worker cfg_one 0
           (transfers_only [exit_failed ''HTTP 404 Not Found'', exit_ok]) one_ready = Some s' \<and>
        completed_list s' = [0] \<and> failed_list s' = [] \<and>
        status (heap s' 0) = Completed \<and> error (heap s' 0) = Some err_not_found"
  by (simp add: scenario_defs model_defs)

text \<open>
  C9 (the code breaks it). Two calls of \<open>add_to_queue\<close> should return different ids.
  The id is the clock reading cut to milliseconds: two calls within one millisecond
  return the same id, and \<open>_find_item_by_id\<close> then finds the first item for both.
\<close>

theorem same_millisecond_same_id:
  "fst (add_to_queue ''https://youtu.be/a'' ''480p'' 1700000000.000244140625 init_manager)
     = ''yt_1700000000000'' \<and>
   fst (add_to_queue ''https://youtu.be/b'' ''720p'' 1700000000.00048828125
          (snd (add_to_queue ''https://youtu.be/a'' ''480p'' 1700000000.000244140625 init_manager)))
     = ''yt_1700000000000'' \<and>
   pending_queue (snd (add_to_queue ''https://youtu.be/b'' ''720p'' 1700000000.00048828125
          (snd (add_to_queue ''https://youtu.be/a'' ''480p'' 1700000000.000244140625 init_manager))))
     = [0, 1] \<and>
   find_item_by_id (snd (add_to_queue ''https://youtu.be/b'' ''720p'' 1700000000.00048828125
          (snd (add_to_queue ''https://youtu.be/a'' ''480p'' 1700000000.000244140625 init_manager))))
      ''yt_1700000000000'' = Some 0"
  by (simp add: model_defs string_of_nat.simps find_item_by_id_def all_items_def)

text \<open>
  C10 (the code breaks it). No queue should hold an item twice. When \<open>aria2c\<close> is not
  found, \<open>_download_with_retry\<close> appends the item to the failed list and returns
  \<open>False\<close>, and \<open>_download_worker\<close> appends it again.
\<close>

theorem missing_tool_appends_twice:
  "\<exists>s'. download_worker cfg_one 0 \<lparr>aria2_found = False, transfers = [], refill = []\<rparr> one_ready
           = Some s' \<and>
        failed_list s' = [0, 0] \<and> \<not> distinct (failed_list s') \<and>
        status (heap s' 0) = Failed \<and> error (heap s' 0) = Some err_no_aria2"
  by (simp add: scenario_defs model_defs)

subsection \<open>An expired link ends the retries\<close>

lemma only_item_refl: "only_item r s s"
  by (simp add: only_item_def)

lemma only_item_trans: "only_item r s s1 \<Longrightarrow> only_item r s1 s2 \<Longrightarrow> only_item r s s2"
  unfolding only_item_def
  by (metis (no_types, lifting) manager.surjective manager.update_convs(1))

lemma only_item_update:
  "status (f (heap s r)) = status (heap s r) \<Longrightarrow>
   download_url (f (heap s r)) = download_url (heap s r) \<Longrightarrow> only_item r s (update_item r f s)"
  by (simp add: only_item_def update_item_def)

lemma only_item_fields:
  assumes "only_item r s s'"
  shows "stopped s' = stopped s" "paused s' = paused s" "pending_queue s' = pending_queue s"
    "downloading s' = downloading s" "failed_list s' = failed_list s"
    "download_queue s' = download_queue s" "completed_list s' = completed_list s"
    "processing_queue s' = processing_queue s"
proof -
  from assms have e: "s'\<lparr>heap := heap s\<rparr> = s" by (simp add: only_item_def)
  have "stopped (s'\<lparr>heap := heap s\<rparr>) = stopped s'" "paused (s'\<lparr>heap := heap s\<rparr>) = paused s'"
    "pending_queue (s'\<lparr>heap := heap s\<rparr>) = pending_queue s'"
    "downloading (s'\<lparr>heap := heap s\<rparr>) = downloading s'"
    "failed_list (s'\<lparr>heap := heap s\<rparr>) = failed_list s'"
    "download_queue (s'\<lparr>heap := heap s\<rparr>) = download_queue s'"
    "completed_list (s'\<lparr>heap := heap s\<rparr>) = completed_list s'"
    "processing_queue (s'\<lparr>heap := heap s\<rparr>) = processing_queue s'"
    by simp_all
  with e show "stopped s' = stopped s" "paused s' = paused s" "pending_queue s' = pending_queue s"
    "downloading s' = downloading s" "failed_list s' = failed_list s"
    "download_queue s' = download_queue s" "completed_list s' = completed_list s"
    "processing_queue s' = processing_queue s"
    by simp_all
qed

lemma retried_step:
  assumes "retried out" "\<not> stopped s" "\<not> url_invalid (download_url (heap s r))"
  shows "\<exists>s1. download_attempts m r (a # atts) (out # rest) s = download_attempts m r atts rest s1
               \<and> only_item r s s1"
proof (cases out)
  case Raised
  with assms show ?thesis by (intro exI[of _ s]) (simp add: only_item_refl)
next
  case (Exited y)
  show ?thesis
  proof (cases "returncode y = 0 \<and> temp_exists y")
    case True
    with assms Exited show ?thesis by (intro exI[of _ s]) (simp add: only_item_refl)
  next
    case False
    let ?s1 = "update_item r (\<lambda>i. i\<lparr>error := Some err_not_found\<rparr>) s"
    have o1: "only_item r s ?s1" by (rule only_item_update) simp_all
    have o2: "\<And>t u. only_item r t (count_retry r u t)"
      unfolding count_retry_def by (rule only_item_update) simp_all
    from assms Exited False have ne: "\<not> expired_signature (diagnostic y)" by simp
    from False have nt: "(returncode y = 0 \<and> temp_exists y) = False" by simp
    consider (nf_more) "not_found_signature (diagnostic y)" "a < m - 1"
      | (nf_last) "not_found_signature (diagnostic y)" "\<not> a < m - 1"
      | (gen_more) "\<not> not_found_signature (diagnostic y)" "a < m - 1"
      | (gen_last) "\<not> not_found_signature (diagnostic y)" "\<not> a < m - 1" by blast
    then show ?thesis
    proof cases
      case nf_more
      have "only_item r s (count_retry r (fail_clock y) ?s1)"
        using o1 o2 by (rule only_item_trans)
      with nf_more assms Exited ne show ?thesis
        by (intro exI[of _ "count_retry r (fail_clock y) ?s1"]) (simp add: Let_def nt)
    next
      case nf_last
      with assms Exited ne o1 show ?thesis
        by (intro exI[of _ ?s1]) (simp add: Let_def nt)
    next
      case gen_more
      with assms Exited ne o2 show ?thesis
        by (intro exI[of _ "count_retry r (fail_clock y) s"]) (simp add: Let_def nt)
    next
      case gen_last
      with assms Exited ne show ?thesis
        by (intro exI[of _ s]) (simp add: only_item_refl nt)
    qed
  qed
qed (use assms in simp_all)

lemma download_attempts_expired:
  assumes "list_all retried pre" "length pre < length atts" "expired_exit x"
    "\<not> stopped s" "\<not> url_invalid (download_url (heap s r))"
  shows "\<exists>s3. download_attempts m r atts (pre @ Exited x # post) s = Some (False, s3, post) \<and>
            error (heap s3 r) = Some err_expired \<and> only_item r s s3"
  using assms
proof (induction pre arbitrary: atts s)
  case Nil
  then obtain a atts' where atts: "atts = a # atts'" by (cases atts) auto
  let ?s3 = "update_item r (\<lambda>i. i\<lparr>error := Some err_expired\<rparr>) s"
  have "download_attempts m r atts ([] @ Exited x # post) s = Some (False, ?s3, post)"
    using Nil by (auto simp add: atts expired_exit_def)
  moreover have "only_item r s ?s3" by (rule only_item_update) simp_all
  moreover have "error (heap ?s3 r) = Some err_expired" by (simp add: update_item_def)
  ultimately show ?case by blast
next
  case (Cons out pre)
  then obtain a atts' where atts: "atts = a # atts'" and len: "length pre < length atts'"
    by (cases atts) auto
  have pre: "list_all retried pre" and out: "retried out" using Cons.prems(1) by simp_all
  from retried_step[OF out Cons.prems(4,5), of m a atts' "pre @ Exited x # post"]
  obtain s1 where s1: "download_attempts m r atts ((out # pre) @ Exited x # post) s
       = download_attempts m r atts' (pre @ Exited x # post) s1" "only_item r s s1"
    by (auto simp: atts)
  have "\<not> stopped s1" "\<not> url_invalid (download_url (heap s1 r))"
    using s1(2) Cons.prems(4,5) only_item_fields(1)[OF s1(2)] by (simp_all add: only_item_def)
  from Cons.IH[OF pre len Cons.prems(3) this]
  obtain s3 where s3: "download_attempts m r atts' (pre @ Exited x # post) s1 = Some (False, s3, post)"
       "error (heap s3 r) = Some err_expired" "only_item r s1 s3" by blast
  from s1 s3 only_item_trans[OF s1(2) s3(3)] show ?case by auto
qed


lemma remove_first_last: "P r \<Longrightarrow> \<exists>d. remove_first P (xs @ [r]) = Some d"
  by (induction xs) auto

lemma mark_failed_frame:
  "q \<noteq> r \<Longrightarrow> heap (mark_failed q msg s) r = heap s r"
  "pending_queue (mark_failed q msg s) = pending_queue s"
  "set (failed_list (mark_failed q msg s)) = insert q (set (failed_list s))"
  by (auto simp: mark_failed_def update_item_def Let_def split: option.splits)

lemma attempt_resolution_frame:
  assumes "q \<noteq> r" "r \<notin> set (pending_queue s)"
  shows "heap (attempt_resolution q now out s) r = heap s r"
    "r \<notin> set (pending_queue (attempt_resolution q now out s))"
    "set (failed_list s) \<subseteq> set (failed_list (attempt_resolution q now out s))"
  using assms
  by (auto simp: attempt_resolution_def mark_failed_frame update_item_def Let_def
           split: resolve_outcome.splits option.splits)

lemma single_generator_worker_frame:
  assumes "r \<notin> set (pending_queue s)"
  shows "heap (single_generator_worker e s) r = heap s r \<and>
         r \<notin> set (pending_queue (single_generator_worker e s)) \<and>
         set (failed_list s) \<subseteq> set (failed_list (single_generator_worker e s))"
proof (cases "pending_queue s")
  case Nil
  then show ?thesis by (simp add: single_generator_worker_def)
next
  case (Cons q rest)
  with assms have qr: "q \<noteq> r" and nr: "r \<notin> set rest" by auto
  have nr': "r \<notin> set (pending_queue (s\<lparr>pending_queue := rest\<rparr>))" using nr by simp
  from attempt_resolution_frame[OF qr nr', of "clock e" "outcome e"] Cons qr nr
  show ?thesis
    by (simp add: single_generator_worker_def Let_def)
qed

lemma fold_single_generator_worker_frame:
  "r \<notin> set (pending_queue s) \<Longrightarrow>
   heap (fold single_generator_worker es s) r = heap s r \<and>
   set (failed_list s) \<subseteq> set (failed_list (fold single_generator_worker es s))"
proof (induction es arbitrary: s)
  case Nil
  then show ?case by simp
next
  case (Cons e es)
  from single_generator_worker_frame[OF Cons.prems, of e]
  have a: "heap (single_generator_worker e s) r = heap s r"
    and b: "r \<notin> set (pending_queue (single_generator_worker e s))"
    and c: "set (failed_list s) \<subseteq> set (failed_list (single_generator_worker e s))" by blast+
  from Cons.IH[OF b] a c show ?case by auto
qed

lemma generate_additional_links_frame:
  assumes "r \<notin> set (pending_queue s)" "nat n \<le> length es"
  shows "\<exists>s'. generate_additional_links n es s = Some s' \<and> heap s' r = heap s r \<and>
              set (failed_list s) \<subseteq> set (failed_list s')"
proof (cases "pending_queue s = [] \<or> n \<le> 0")
  case True
  then show ?thesis by (simp add: generate_additional_links_def)
next
  case False
  let ?k = "min (nat n) (length (pending_queue s))"
  have "\<not> length es < ?k" using assms(2) by simp
  with False have "generate_additional_links n es s
      = Some (fold single_generator_worker (take ?k es) s)"
    by (simp add: generate_additional_links_def Let_def)
  with fold_single_generator_worker_frame[OF assms(1), of "take ?k es"] show ?thesis by simp
qed

text \<open>
  C4. A download worker runs on an item that is not pending, with a usable link and
  no stop requested. If one of its at most five transfers, reached after attempts
  that failed in a way the loop retries, fails with a diagnostic that contains
  \<open>Unrecognized URI\<close> or \<open>unsupported protocol\<close>, then \<open>_download_with_retry\<close> returns
  \<open>False\<close> on that attempt and launches no further process (the outcomes \<open>post\<close> of
  the environment stay unused), and the worker returns with the item in the failed
  list and the error text of line 494 (\<open>err_expired\<close>) recorded on it. (The environment holds
  enough entries for the link generators the worker may start afterwards.)
\<close>

theorem expired_url_aborts_download:
  assumes found: "aria2_found env"
    and outs: "transfers env = pre @ Exited x # post"
    and pre: "list_all retried pre" "length pre < 5"
    and x: "expired_exit x"
    and s: "\<not> stopped s" "\<not> url_invalid (download_url (heap s r))" "r \<notin> set (pending_queue s)"
    and env: "nat (max_downloads cfg) \<le> length (refill env)"
  shows "(\<exists>s3. download_with_retry 5 r True (pre @ Exited x # post) (claim_for_download r s)
                 = Some (False, s3, post)) \<and>
         (\<exists>s'. download_worker cfg r env s = Some s' \<and> r \<in> set (failed_list s') \<and>
                error (heap s' r) = Some err_expired)"
proof -
  let ?s2 = "claim_for_download r s"
  have s2: "\<not> stopped ?s2" "\<not> url_invalid (download_url (heap ?s2 r))"
    "pending_queue ?s2 = pending_queue s" "downloading ?s2 = downloading s @ [r]"
    using s by (simp_all add: claim_for_download_def update_item_def Let_def)
  have len: "length pre < length [0..(5::int) - 1]" using pre(2) by simp
  from download_attempts_expired[OF pre(1) len x s2(1,2), of 5 post]
  obtain s3 where s3: "download_attempts 5 r [0..5 - 1] (pre @ Exited x # post) ?s2
       = Some (False, s3, post)" "error (heap s3 r) = Some err_expired" "only_item r ?s2 s3"
    by blast
  have dwr: "download_with_retry 5 r True (pre @ Exited x # post) ?s2 = Some (False, s3, post)"
    using s3(1) by (simp add: download_with_retry_def)
  note f = only_item_fields[OF s3(3)]
  have "same_item s3 r r" by (simp add: same_item_def)
  from remove_first_last[of "same_item s3 r" r "downloading s", OF this]
  obtain d where d: "list_remove s3 r (downloading s3) = Some d"
    by (auto simp: list_remove_def f s2)
  let ?s4 = "s3\<lparr>downloading := d, failed_list := failed_list s3 @ [r]\<rparr>"
  have s4: "r \<notin> set (pending_queue ?s4)" "r \<in> set (failed_list ?s4)"
    "error (heap ?s4 r) = Some err_expired"
    using s(3) s3(2) f s2 by simp_all
  let ?n = "max_downloads cfg - int (length (downloading ?s4))
                     - int (length (download_queue ?s4))"
  have n: "nat ?n \<le> length (refill env)" using env by linarith
  from generate_additional_links_frame[OF s4(1) n]
  obtain s5 where s5: "generate_additional_links ?n (refill env) ?s4 = Some s5"
    "heap s5 r = heap ?s4 r" "set (failed_list ?s4) \<subseteq> set (failed_list s5)" by blast
  have "download_worker cfg r env s = Some ?s4 \<or> download_worker cfg r env s = Some s5"
    using dwr d s5(1) found outs
    by (simp add: download_worker_def claim_for_download_def Let_def)
  with s4 s5 have "\<exists>s'. download_worker cfg r env s = Some s' \<and> r \<in> set (failed_list s') \<and>
        error (heap s' r) = Some err_expired" by auto
  with dwr show ?thesis by blast
qed

theorem expired_url_aborts_download_witness:
  "aria2_found expired_run \<and>
   transfers expired_run = [exit_failed ''Connection refused''] @ Exited expired_info # [exit_ok] \<and>
   list_all retried [exit_failed ''Connection refused''] \<and>
   length [exit_failed ''Connection refused''] < 5 \<and> expired_exit expired_info \<and>
   \<not> stopped one_ready \<and> \<not> url_invalid (download_url (heap one_ready 0)) \<and>
   0 \<notin> set (pending_queue one_ready) \<and>
   nat (max_downloads cfg_one) \<le> length (refill expired_run) \<and>
   (\<exists>s3. download_with_retry 5 0 True
           ([exit_failed ''Connection refused''] @ Exited expired_info # [exit_ok])
           (claim_for_download 0 one_ready) = Some (False, s3, [exit_ok])) \<and>
   (\<exists>s'. download_worker cfg_one 0 expired_run one_ready = Some s' \<and>
          0 \<in> set (failed_list s') \<and> error (heap s' 0) = Some err_expired)"
proof -
  have h1: "aria2_found expired_run"
    and h2: "transfers expired_run
               = [exit_failed ''Connection refused''] @ Exited expired_info # [exit_ok]"
    and h3: "list_all retried [exit_failed ''Connection refused'']"
    and h4: "length [exit_failed ''Connection refused''] < 5"
    and h5: "expired_exit expired_info"
    and h6: "\<not> stopped one_ready"
    and h7: "\<not> url_invalid (download_url (heap one_ready 0))"
    and h8: "0 \<notin> set (pending_queue one_ready)"
    and h9: "nat (max_downloads cfg_one) \<le> length (refill expired_run)"
    by (simp_all add: scenario_defs model_defs expired_exit_def)
  from expired_url_aborts_download[OF h1 h2 h3 h4 h5 h6 h7 h8 h9]
    h1 h2 h3 h4 h5 h6 h7 h8 h9
  show ?thesis by blast
qed

subsection \<open>Loading the database\<close>

text \<open>
  C6 as claimed fails: the items that the document lists as processing or downloading
  are not moved to the pending queue. Loading a document with one item in each of
  these two lists leaves the pending queue empty, the first item in the processing
  queue and the second in the downloading queue.
\<close>

theorem frozen_items_stay_frozen: "pending_queue (load_database (Document frozen_doc) init_manager) = [] \<and>
  processing_queue (load_database (Document frozen_doc) init_manager) = [0] \<and>
  downloading (load_database (Document frozen_doc) init_manager) = [1] \<and>
  heap (load_database (Document frozen_doc) init_manager) 0 = blank_item\<lparr>item_id := ''yt_1'', status := Processing\<rparr> \<and>
  heap (load_database (Document frozen_doc) init_manager) 1 = blank_item\<lparr>item_id := ''yt_2'', status := Downloading\<rparr>"
  by (simp add: load_database_def frozen_doc_def init_manager_def get_list_def Let_def)

lemma alloc_items_spec:
  "alloc_items xs s = (rs, s1) \<Longrightarrow>
     next_ref s1 = next_ref s + length xs \<and> set rs \<subseteq> {next_ref s ..< next_ref s1} \<and>
     distinct rs \<and> map (heap s1) rs = xs \<and> (\<forall>k < next_ref s. heap s1 k = heap s k)"
proof (induction xs arbitrary: s rs s1)
  case Nil
  then show ?case by simp
next
  case (Cons i xs)
  let ?n = "next_ref s"
  let ?s0 = "s\<lparr>heap := (heap s)(?n := i), next_ref := Suc ?n\<rparr>"
  obtain rs' s1' where a: "alloc_items xs ?s0 = (rs', s1')" by fastforce
  with Cons.prems have r: "rs = ?n # rs'" "s1 = s1'" by (simp_all add: Let_def)
  from Cons.IH[OF a] have ih1: "next_ref s1' = next_ref ?s0 + length xs"
    and ih2: "set rs' \<subseteq> {next_ref ?s0 ..< next_ref s1'}"
    and ih3: "distinct rs'" and ih4: "map (heap s1') rs' = xs"
    and ih5: "\<forall>k < next_ref ?s0. heap s1' k = heap ?s0 k" by blast+
  have n0: "next_ref ?s0 = Suc ?n" by simp
  have h: "heap s1' ?n = i" using ih5 n0 by simp
  have c1: "next_ref s1 = ?n + length (i # xs)" using r ih1 n0 by simp
  have c2: "set rs \<subseteq> {?n ..< next_ref s1}" using r ih1 ih2 n0 by auto
  have c3: "distinct rs" using r ih2 ih3 n0 by auto
  have c4: "map (heap s1) rs = i # xs" using r ih4 h by simp
  have c5: "\<forall>k < ?n. heap s1 k = heap s k" using r ih5 n0 by simp
  from c1 c2 c3 c4 c5 show ?case by blast
qed

lemma map_heap_agree: "set rs \<subseteq> {l ..< n} \<Longrightarrow> \<forall>k<n. h' k = h k \<Longrightarrow> map h' rs = map h rs"
  by (induction rs) auto

text \<open>
  C6 as amended. After \<open>load_database\<close> has read a document, each of the six queues
  holds the items of the document's list for its own stage, in the document's order:
  the items of the \<open>processing\<close> list are in the processing queue and those of
  the \<open>downloading\<close> list in the downloading queue, and the pending queue holds
  the items of the \<open>pending\<close> list and nothing else. Every entry is a dictionary
  of its own, so no object is in two queues.
\<close>

theorem load_database_restores_each_queue:
  "map (heap (load_database (Document d) s)) (pending_queue (load_database (Document d) s))
     = get_list (doc_pending d) \<and>
   map (heap (load_database (Document d) s)) (processing_queue (load_database (Document d) s))
     = get_list (doc_processing d) \<and>
   map (heap (load_database (Document d) s)) (download_queue (load_database (Document d) s))
     = get_list (doc_download_ready d) \<and>
   map (heap (load_database (Document d) s)) (downloading (load_database (Document d) s))
     = get_list (doc_downloading d) \<and>
   map (heap (load_database (Document d) s)) (completed_list (load_database (Document d) s))
     = get_list (doc_completed d) \<and>
   map (heap (load_database (Document d) s)) (failed_list (load_database (Document d) s))
     = get_list (doc_failed d) \<and>
   distinct (all_items (load_database (Document d) s))"
proof -
  obtain p s1 where a1: "alloc_items (get_list (doc_pending d)) s = (p, s1)" by fastforce
  obtain g s2 where a2: "alloc_items (get_list (doc_processing d)) s1 = (g, s2)" by fastforce
  obtain q s3 where a3: "alloc_items (get_list (doc_download_ready d)) s2 = (q, s3)" by fastforce
  obtain w s4 where a4: "alloc_items (get_list (doc_downloading d)) s3 = (w, s4)" by fastforce
  obtain c s5 where a5: "alloc_items (get_list (doc_completed d)) s4 = (c, s5)" by fastforce
  obtain x s6 where a6: "alloc_items (get_list (doc_failed d)) s5 = (x, s6)" by fastforce
  let ?s' = "load_database (Document d) s"
  have ld: "?s' = s6\<lparr>pending_queue := p, processing_queue := g, download_queue := q,
                 downloading := w, completed_list := c, failed_list := x\<rparr>"
    by (simp add: load_database_def a1 a2 a3 a4 a5 a6)
  note b1 = alloc_items_spec[OF a1] and b2 = alloc_items_spec[OF a2]
    and b3 = alloc_items_spec[OF a3] and b4 = alloc_items_spec[OF a4]
    and b5 = alloc_items_spec[OF a5] and b6 = alloc_items_spec[OF a6]
  have k6: "\<forall>k < next_ref s5. heap s6 k = heap s5 k" using b6 by blast
  have k5: "\<forall>k < next_ref s4. heap s6 k = heap s4 k" using b5 k6 by simp
  have k4: "\<forall>k < next_ref s3. heap s6 k = heap s3 k" using b4 k5 by simp
  have k3: "\<forall>k < next_ref s2. heap s6 k = heap s2 k" using b3 k4 by simp
  have k2: "\<forall>k < next_ref s1. heap s6 k = heap s1 k" using b2 k3 by simp
  have n: "next_ref s \<le> next_ref s1" "next_ref s1 \<le> next_ref s2" "next_ref s2 \<le> next_ref s3"
    "next_ref s3 \<le> next_ref s4" "next_ref s4 \<le> next_ref s5" "next_ref s5 \<le> next_ref s6"
    using b1 b2 b3 b4 b5 b6 by simp_all
  have r1: "set p \<subseteq> {next_ref s ..< next_ref s1}" using b1 by blast
  have r2: "set g \<subseteq> {next_ref s1 ..< next_ref s2}" using b2 by blast
  have r3: "set q \<subseteq> {next_ref s2 ..< next_ref s3}" using b3 by blast
  have r4: "set w \<subseteq> {next_ref s3 ..< next_ref s4}" using b4 by blast
  have r5: "set c \<subseteq> {next_ref s4 ..< next_ref s5}" using b5 by blast
  have r6: "set x \<subseteq> {next_ref s5 ..< next_ref s6}" using b6 by blast
  have m1: "map (heap s6) p = get_list (doc_pending d)"
    using b1 map_heap_agree[OF r1 k2] by simp
  have m2: "map (heap s6) g = get_list (doc_processing d)"
    using b2 map_heap_agree[OF r2 k3] by simp
  have m3: "map (heap s6) q = get_list (doc_download_ready d)"
    using b3 map_heap_agree[OF r3 k4] by simp
  have m4: "map (heap s6) w = get_list (doc_downloading d)"
    using b4 map_heap_agree[OF r4 k5] by simp
  have m5: "map (heap s6) c = get_list (doc_completed d)"
    using b5 map_heap_agree[OF r5 k6] by simp
  have m6: "map (heap s6) x = get_list (doc_failed d)" using b6 by simp
  have dp: "distinct p" "distinct g" "distinct q" "distinct w" "distinct c" "distinct x"
    using b1 b2 b3 b4 b5 b6 by blast+
  have "distinct (p @ g @ q @ w @ c @ x)"
    using dp r1 r2 r3 r4 r5 r6 n by (fastforce simp: subset_iff)
  then have di: "distinct (all_items ?s')" by (simp add: all_items_def ld)
  from m1 m2 m3 m4 m5 m6 di show ?thesis by (simp add: ld)
qed

end
